theory Spec2Isabelle
  imports Complex_Main
begin

section \<open>The trading journal: data model\<close>

text \<open>
  The Flask application keeps its journal in a CSV file and shows summary statistics
  computed by \<^verbatim>\<open>calculate_summary\<close>. A row read back by \<^verbatim>\<open>csv.DictReader\<close> is
  a dictionary from column names to cells; a cell is a string, or Python's \<^verbatim>\<open>None\<close>
  for a column that a short row does not reach.
\<close>

type_synonym cell = "string option"

type_synonym trade = "string \<rightharpoonup> cell"

type_synonym csv_row = "string list"

text \<open>
  The file \<^verbatim>\<open>trading_journal.csv\<close>: \<open>None\<close> when it does not exist, otherwise its
  rows in order, each row the list of its fields. The quoting that the csv module
  applies when writing and undoes when reading is not modelled.
\<close>

type_synonym csv_file = "csv_row list option"

text \<open>
  The exceptions that can leave the functions modelled here: \<^verbatim>\<open>KeyError\<close> from
  selecting a column that the frame does not have, \<^verbatim>\<open>BadRequestKeyError\<close> from
  reading a field that the submitted form does not have, and \<^verbatim>\<open>TypeError\<close> for an
  argument that is not a list of records.
\<close>

datatype error = KeyError | BadRequestKeyError | TypeError

definition fieldnames :: "string list" where
  "fieldnames =
    [''Sl No.'', ''Script Name'', ''Time'', ''Long/Short'', ''Entry Price'', ''SL'',
     ''Quantity'', ''% of Account Risked'', ''Target Price'', ''Exit Price'',
     ''Exit Time'', ''R/R'', ''P/L'', ''Did I followd MY RUES?'']"

text \<open>The module-level statement that creates the file with its header row when it is absent.\<close>

definition ensure_data_file :: "csv_file \<Rightarrow> csv_file" where
  "ensure_data_file f = (case f of None \<Rightarrow> Some [fieldnames] | Some rows \<Rightarrow> Some rows)"

definition initial_file :: csv_file where
  "initial_file = ensure_data_file None"

subsection \<open>Reading the journal\<close>

text \<open>
  One step of \<^verbatim>\<open>csv.DictReader\<close>: \<^verbatim>\<open>dict(zip(fieldnames, row))\<close>, then every
  field name beyond the end of a short row is set to \<^verbatim>\<open>None\<close>. The surplus fields of a
  long row, which the reader files under the key \<^verbatim>\<open>None\<close>, are left out: no column
  name equals that key.
\<close>

definition dict_reader_row :: "string list \<Rightarrow> csv_row \<Rightarrow> trade" where
  "dict_reader_row fns row =
     fold (\<lambda>k d. d(k \<mapsto> None)) (drop (length row) fns)
       (fold (\<lambda>(k, v) d. d(k \<mapsto> Some v)) (zip fns row) Map.empty)"

text \<open>
  \<^verbatim>\<open>get_journal_data\<close>: a missing file is caught (\<^verbatim>\<open>FileNotFoundError\<close>) and gives the
  empty list; the first row gives the field names; blank rows are skipped.
\<close>

definition get_journal_data :: "csv_file \<Rightarrow> trade list" where
  "get_journal_data f =
     (case f of
        None \<Rightarrow> []
      | Some [] \<Rightarrow> []
      | Some (fns # rows) \<Rightarrow> map (dict_reader_row fns) (filter (\<lambda>r. r \<noteq> []) rows))"

section \<open>Decimal strings\<close>

text \<open>
  \<^verbatim>\<open>str\<close> of a natural number, as the csv writer applies it to the sequence number,
  and the reading of a decimal string back as a number.
\<close>

definition digit_char :: "nat \<Rightarrow> char" where
  "digit_char d = char_of (48 + d)"

function str_nat :: "nat \<Rightarrow> string" where
  "str_nat n = (if n < 10 then [digit_char n] else str_nat (n div 10) @ [digit_char (n mod 10)])"
  by pat_completeness auto
termination
  by (relation "measure id") auto

declare str_nat.simps [simp del]



section \<open>Submitting a trade\<close>










section \<open>Python's floating-point arithmetic for the rates\<close>

text \<open>
  \<^verbatim>\<open>winning_trades / total_trades\<close> is the true division of two integers, and the
  product with \<^verbatim>\<open>100\<close> is a multiplication of doubles; each gives the binary64 number
  nearest to the exact result, ties to the even significand. A double is modelled by
  the rational it denotes.
\<close>

definition pow2 :: "int \<Rightarrow> rat" where
  "pow2 e = (if 0 \<le> e then 2 ^ nat e else 1 / 2 ^ nat (- e))"

text \<open>The number of binary digits of a positive integer (\<^verbatim>\<open>int.bit_length\<close>).\<close>

function bit_length :: "int \<Rightarrow> nat" where
  "bit_length a = (if 0 < a then Suc (bit_length (a div 2)) else 0)"
  by pat_completeness auto
termination
  by (relation "measure nat") auto

declare bit_length.simps [simp del]

text \<open>The exponent \<open>e\<close> with \<open>2\<^sup>e \<le> x < 2\<^sup>e\<^sup>+\<^sup>1\<close> of a positive rational.\<close>

definition float_exponent :: "rat \<Rightarrow> int" where
  "float_exponent x =
     (let (p, q) = quotient_of x;
          e0 = int (bit_length p) - int (bit_length q)
      in if pow2 e0 \<le> x then e0 else e0 - 1)"

definition round_half_even :: "rat \<Rightarrow> int" where
  "round_half_even m =
     (let f = \<lfloor>m\<rfloor>; r = m - of_int f
      in if r < 1 / 2 then f
         else if 1 / 2 < r then f + 1
         else if even f then f else f + 1)"

text \<open>
  Rounding to binary64: 53 significant bits, and below \<open>2\<^sup>-\<^sup>1\<^sup>0\<^sup>2\<^sup>2\<close> the fixed spacing
  of the subnormal numbers. No overflow arises: the rates never exceed 100.
\<close>

definition round_double :: "rat \<Rightarrow> rat" where
  "round_double x =
     (if x = 0 then 0
      else let q = pow2 (max (float_exponent \<bar>x\<bar>) (- 1022) - 52)
           in of_int (round_half_even (x / q)) * q)"

definition int_truediv :: "nat \<Rightarrow> nat \<Rightarrow> rat" where
  "int_truediv a b = round_double (of_nat a / of_nat b)"

definition float_mul :: "rat \<Rightarrow> rat \<Rightarrow> rat" where
  "float_mul x y = round_double (x * y)"

definition win_rate :: "nat \<Rightarrow> nat \<Rightarrow> rat" where
  "win_rate winning_trades total_trades =
     (if total_trades > 0 then float_mul (int_truediv winning_trades total_trades) 100 else 0)"

definition lose_rate :: "nat \<Rightarrow> nat \<Rightarrow> rat" where
  "lose_rate losing_trades total_trades =
     (if total_trades > 0 then float_mul (int_truediv losing_trades total_trades) 100 else 0)"

subsection \<open>Formatting with two decimals\<close>

text \<open>
  \<^verbatim>\<open>f"{x:.2f}"\<close>: the decimal with two fractional digits nearest to the exact value of
  the double, ties to even.
\<close>

definition format_2f :: "rat \<Rightarrow> string" where
  "format_2f x =
     (let n = \<bar>round_half_even (x * 100)\<bar>
      in (if x < 0 then ''-'' else '''') @ str_nat (nat (n div 100)) @ ''.''
           @ [digit_char (nat (n mod 100 div 10)), digit_char (nat (n mod 10))])"

section \<open>The summary\<close>

record summary =
  total_trades :: nat
  winning_trades :: nat
  losing_trades :: nat
  break_even_trades :: nat
  win_rate_str :: string
  lose_rate_str :: string
  largest_win :: "rat option"
  largest_loss :: "rat option"
  total_pl :: rat

text \<open>
  \<^verbatim>\<open>pd.DataFrame(data)\<close> has a column for every key that occurs in some record, with
  a missing value where a record lacks the key; selecting a column that no record
  has raises \<^verbatim>\<open>KeyError\<close>.
\<close>

definition frame_column :: "string \<Rightarrow> trade list \<Rightarrow> error + cell list" where
  "frame_column k data =
     (if list_ex (\<lambda>r. r k \<noteq> None) data
      then Inr (map (\<lambda>r. case r k of None \<Rightarrow> None | Some c \<Rightarrow> c) data)
      else Inl KeyError)"

text \<open>
  \<^verbatim>\<open>pd.to_numeric(..., errors='coerce')\<close>: the parser \<open>num\<close> of pandas is a parameter;
  where it rejects a string, and where the value is missing, the result is NaN
  (\<open>None\<close>). The numbers are exact rationals: the binary rounding that pandas applies
  inside a column is not modelled.
\<close>

definition to_numeric_coerce :: "(string \<Rightarrow> rat option) \<Rightarrow> cell list \<Rightarrow> rat option list" where
  "to_numeric_coerce num col = map (\<lambda>c. case c of None \<Rightarrow> None | Some s \<Rightarrow> num s) col"

definition fillna :: "rat \<Rightarrow> rat option list \<Rightarrow> rat list" where
  "fillna v col = map (\<lambda>x. case x of None \<Rightarrow> v | Some y \<Rightarrow> y) col"

text \<open>\<^verbatim>\<open>Series.max()\<close> and \<^verbatim>\<open>Series.min()\<close>: NaN (\<open>None\<close>) on an empty series.\<close>

definition series_max :: "rat list \<Rightarrow> rat option" where
  "series_max xs = (case xs of [] \<Rightarrow> None | x # ys \<Rightarrow> Some (fold max ys x))"

definition series_min :: "rat list \<Rightarrow> rat option" where
  "series_min xs = (case xs of [] \<Rightarrow> None | x # ys \<Rightarrow> Some (fold min ys x))"

definition empty_summary :: summary where
  "empty_summary =
     \<lparr> total_trades = 0, winning_trades = 0, losing_trades = 0, break_even_trades = 0,
       win_rate_str = ''0.00'', lose_rate_str = ''0.00'',
       largest_win = Some 0, largest_loss = Some 0, total_pl = 0 \<rparr>"

text \<open>
  The statistics that \<^verbatim>\<open>calculate_summary\<close> derives from the numeric P/L column: the
  part of the function after the column has been converted.
\<close>

definition summary_of_series :: "rat list \<Rightarrow> summary" where
  "summary_of_series pl =
     (let total = length pl;
          winning = length (filter (\<lambda>v. v > 0) pl);
          losing = length (filter (\<lambda>v. v < 0) pl);
          break_even = length (filter (\<lambda>v. v = 0) pl)
      in \<lparr> total_trades = total,
           winning_trades = winning,
           losing_trades = losing,
           break_even_trades = break_even,
           win_rate_str = format_2f (win_rate winning total),
           lose_rate_str = format_2f (lose_rate losing total),
           largest_win = (if winning > 0 then series_max pl else Some 0),
           largest_loss = (if losing > 0 then series_min pl else Some 0),
           total_pl = sum_list pl \<rparr>)"

definition calculate_summary :: "(string \<Rightarrow> rat option) \<Rightarrow> trade list \<Rightarrow> error + summary" where
  "calculate_summary num data =
     (if data = [] then Inr empty_summary
      else case frame_column ''P/L'' data of
        Inl e \<Rightarrow> Inl e
      | Inr col \<Rightarrow> Inr (summary_of_series (fillna 0 (to_numeric_coerce num col))))"

text \<open>The \<^verbatim>\<open>GET\<close> branch of \<^verbatim>\<open>index\<close>: the records and their summary, as handed to the template.\<close>

definition index_get :: "(string \<Rightarrow> rat option) \<Rightarrow> csv_file \<Rightarrow> error + trade list \<times> summary" where
  "index_get num f =
     (let journal_data = get_journal_data f
      in case calculate_summary num journal_data of
           Inl e \<Rightarrow> Inl e
         | Inr summary_data \<Rightarrow> Inr (journal_data, summary_data))"

section \<open>What the summary computes\<close>



text \<open>The frame built from the records has a \<^verbatim>\<open>P/L\<close> column: some record carries the key.\<close>

definition has_pl_column :: "trade list \<Rightarrow> bool" where
  "has_pl_column data = list_ex (\<lambda>r. r ''P/L'' \<noteq> None) data"




section \<open>The summary over an explicit object store\<close>

text \<open>
  To state that \<^verbatim>\<open>calculate_summary\<close> has no side effect, the objects it works on are
  made explicit: the world is the journal file and a store of objects, addressed by their
  index. The argument \<^verbatim>\<open>data\<close> is the address of a list of records;
  \<^verbatim>\<open>pd.DataFrame(data)\<close> allocates a new frame that copies the records, and
  \<^verbatim>\<open>df['P/L'] = ...\<close> assigns to a column of that frame. A column holds the cells as
  read, or numbers once converted.
\<close>

datatype column = Cells "cell list" | Numbers "rat list"

datatype pyobj = PyList "trade list" | DataFrame "string \<rightharpoonup> column"

record world =
  journal :: csv_file
  objects :: "pyobj list"

definition pd_DataFrame :: "trade list \<Rightarrow> pyobj" where
  "pd_DataFrame data =
     DataFrame (\<lambda>k. if list_ex (\<lambda>r. r k \<noteq> None) data
                    then Some (Cells (map (\<lambda>r. case r k of None \<Rightarrow> None | Some c \<Rightarrow> c) data))
                    else None)"

definition getitem :: "pyobj \<Rightarrow> string \<Rightarrow> error + column" where
  "getitem obj k =
     (case obj of
        DataFrame cols \<Rightarrow> (case cols k of None \<Rightarrow> Inl KeyError | Some c \<Rightarrow> Inr c)
      | PyList recs \<Rightarrow> Inl TypeError)"

definition setitem :: "pyobj \<Rightarrow> string \<Rightarrow> column \<Rightarrow> pyobj" where
  "setitem obj k c =
     (case obj of
        DataFrame cols \<Rightarrow> DataFrame (cols(k \<mapsto> c))
      | PyList recs \<Rightarrow> PyList recs)"

definition to_numeric_column :: "(string \<Rightarrow> rat option) \<Rightarrow> column \<Rightarrow> rat option list" where
  "to_numeric_column num c =
     (case c of Cells cs \<Rightarrow> to_numeric_coerce num cs | Numbers xs \<Rightarrow> map Some xs)"

definition series_of :: "column \<Rightarrow> rat list" where
  "series_of c = (case c of Numbers xs \<Rightarrow> xs | Cells cs \<Rightarrow> [])"

text \<open>Allocation of a new object, and assignment to an object that exists.\<close>

definition alloc :: "pyobj \<Rightarrow> world \<Rightarrow> nat \<times> world" where
  "alloc obj w = (length (objects w), w\<lparr>objects := objects w @ [obj]\<rparr>)"

definition store :: "nat \<Rightarrow> pyobj \<Rightarrow> world \<Rightarrow> world" where
  "store a obj w = w\<lparr>objects := list_update (objects w) a obj\<rparr>"

definition calculate_summary_in ::
    "(string \<Rightarrow> rat option) \<Rightarrow> nat \<Rightarrow> world \<Rightarrow> (error + summary) \<times> world" where
  "calculate_summary_in num data w =
     (if length (objects w) \<le> data then (Inl TypeError, w)
      else (case objects w ! data of
        DataFrame cols \<Rightarrow> (Inl TypeError, w)
      | PyList recs \<Rightarrow>
          if recs = [] then (Inr empty_summary, w)
          else
            (let (df, w1) = alloc (pd_DataFrame recs) w
             in (case getitem (objects w1 ! df) ''P/L'' of
                   Inl e \<Rightarrow> (Inl e, w1)
                 | Inr c \<Rightarrow>
                     (let pl = fillna 0 (to_numeric_column num c);
                          w2 = store df (setitem (objects w1 ! df) ''P/L'' (Numbers pl)) w1
                      in (case getitem (objects w2 ! df) ''P/L'' of
                            Inl e \<Rightarrow> (Inl e, w2)
                          | Inr c2 \<Rightarrow> (Inr (summary_of_series (series_of c2)), w2)))))))"

section \<open>Example inputs\<close>

text \<open>
  A parser for the examples: the values that pandas reads from three strings. It rejects
  every other string, as pandas does \<^verbatim>\<open>n/a\<close>.
\<close>

definition example_numeric :: "string \<Rightarrow> rat option" where
  "example_numeric = map_of [(''100'', 100), (''-50'', - 50), (''0'', 0)]"

definition pl_record :: "string \<Rightarrow> trade" where
  "pl_record s = [''P/L'' \<mapsto> Some s]"

definition example_trades :: "trade list" where
  "example_trades = [pl_record ''100'', pl_record ''-50'', pl_record ''0'']"




text \<open>A world whose only object is the list of the three example records.\<close>

definition example_world :: world where
  "example_world = \<lparr> journal = initial_file, objects = [PyList example_trades] \<rparr>"

section \<open>Properties of the summary\<close>

subsection \<open>The P/L series\<close>



lemma frame_column_KeyError:
  "\<not> has_pl_column data \<Longrightarrow> frame_column ''P/L'' data = Inl KeyError"
  by (simp add: frame_column_def has_pl_column_def)




lemma calculate_summary_KeyError:
  "data \<noteq> [] \<Longrightarrow> \<not> has_pl_column data \<Longrightarrow> calculate_summary num data = Inl KeyError"
  by (simp add: calculate_summary_def frame_column_KeyError)


subsection \<open>Extrema, counts and the empty journal\<close>












text \<open>
  Claim C5. The summary of the empty sequence has every count 0, both rate strings
  \<^verbatim>\<open>0.00\<close>, largest winning and losing trade 0 and total P/L 0.
\<close>

theorem summarize_empty:
  "calculate_summary num [] =
     Inr \<lparr> total_trades = 0, winning_trades = 0, losing_trades = 0, break_even_trades = 0,
           win_rate_str = ''0.00'', lose_rate_str = ''0.00'',
           largest_win = Some 0, largest_loss = Some 0, total_pl = 0 \<rparr>"
  by (simp add: calculate_summary_def empty_summary_def)



subsection \<open>Total, rates and the missing file\<close>







text \<open>
  Claim C7. When the journal file does not exist, reading it gives the empty list, no
  error, and the page shows the all-zero summary of the empty journal.
\<close>

theorem missing_file_is_empty_journal:
  "get_journal_data None = []
   \<and> index_get num None =
       Inr ([], \<lparr> total_trades = 0, winning_trades = 0, losing_trades = 0,
                  break_even_trades = 0, win_rate_str = ''0.00'', lose_rate_str = ''0.00'',
                  largest_win = Some 0, largest_loss = Some 0, total_pl = 0 \<rparr>)"
  by (simp add: index_get_def get_journal_data_def calculate_summary_def empty_summary_def)

section \<open>Properties of the journal store\<close>

















section \<open>Rounding of the rates\<close>






























section \<open>No side effects\<close>

lemma getitem_pd_DataFrame:
  "getitem (pd_DataFrame recs) k = map_sum id Cells (frame_column k recs)"
  by (simp add: getitem_def pd_DataFrame_def frame_column_def)

lemma getitem_setitem:
  "getitem (setitem (pd_DataFrame recs) k c) k = Inr c"
  by (simp add: getitem_def setitem_def pd_DataFrame_def)

lemma calculate_summary_in_result:
  assumes "data < length (objects w)" and "objects w ! data = PyList recs"
  shows "fst (calculate_summary_in num data w) = calculate_summary num recs"
  using assms
  by (cases "frame_column ''P/L'' recs")
     (simp_all add: calculate_summary_in_def calculate_summary_def Let_def alloc_def store_def
        getitem_pd_DataFrame getitem_setitem to_numeric_column_def series_of_def)

lemma calculate_summary_in_frame:
  assumes "data < length (objects w)" and "objects w ! data = PyList recs"
  shows "journal (snd (calculate_summary_in num data w)) = journal w"
    and "take (length (objects w)) (objects (snd (calculate_summary_in num data w))) = objects w"
  using assms
  by (cases "frame_column ''P/L'' recs";
      simp add: calculate_summary_in_def Let_def alloc_def store_def getitem_pd_DataFrame
        getitem_setitem)+

text \<open>
  Claim C8. \<^verbatim>\<open>calculate_summary\<close> is a pure function of its input: run on the store, it
  returns what the function of the records returns, so two calls on equal records return
  equal summaries, in whatever world; it leaves the journal file as it was, and every
  object that existed before the call, the list of records among them, is unchanged
  after it (the only object written to is the frame the call itself allocates).
\<close>

theorem calculate_summary_is_pure:
  assumes "data < length (objects w)" and "objects w ! data = PyList recs"
    and "data' < length (objects w')" and "objects w' ! data' = PyList recs"
  shows "fst (calculate_summary_in num data w) = calculate_summary num recs
       \<and> fst (calculate_summary_in num data' w') = fst (calculate_summary_in num data w)
       \<and> journal (snd (calculate_summary_in num data w)) = journal w
       \<and> take (length (objects w)) (objects (snd (calculate_summary_in num data w))) = objects w
       \<and> objects (snd (calculate_summary_in num data w)) ! data = PyList recs"
proof -
  let ?w2 = "snd (calculate_summary_in num data w)"
  have r: "fst (calculate_summary_in num data w) = calculate_summary num recs"
    using assms(1,2) by (rule calculate_summary_in_result)
  have r': "fst (calculate_summary_in num data' w') = calculate_summary num recs"
    using assms(3,4) by (rule calculate_summary_in_result)
  have j: "journal ?w2 = journal w"
    using assms(1,2) by (rule calculate_summary_in_frame(1))
  have t: "take (length (objects w)) (objects ?w2) = objects w"
    using assms(1,2) by (rule calculate_summary_in_frame(2))
  have "objects ?w2 ! data = take (length (objects w)) (objects ?w2) ! data"
    using assms(1) by simp
  then have "objects ?w2 ! data = PyList recs"
    using assms(2) by (simp only: t)
  then show ?thesis
    using r r' j t by simp
qed

theorem calculate_summary_is_pure_witness:
  "0 < length (objects example_world)
   \<and> objects example_world ! 0 = PyList example_trades
   \<and> fst (calculate_summary_in example_numeric 0 example_world)
       = calculate_summary example_numeric example_trades
   \<and> journal (snd (calculate_summary_in example_numeric 0 example_world)) = initial_file
   \<and> objects (snd (calculate_summary_in example_numeric 0 example_world)) ! 0
       = PyList example_trades"
proof -
  have a: "0 < length (objects example_world)"
    by (simp add: example_world_def)
  have b: "objects example_world ! 0 = PyList example_trades"
    by (simp add: example_world_def)
  have c: "journal example_world = initial_file"
    by (simp add: example_world_def)
  show ?thesis
    using calculate_summary_is_pure [OF a b a b, of example_numeric] a b c by simp
qed

end
